theory Spec2Isabelle
  imports Complex_Main "HOL-Library.Sublist"
begin

section \<open>JavaScript numbers\<close>

text \<open>
  The dashboard computes with JavaScript numbers. A number is modelled as a finite real,
  one of the two infinities, or NaN. The special values follow IEEE 754 as the language
  defines them (NaN propagates through arithmetic, every comparison with NaN is false,
  \<open>0 / 0\<close> and \<open>Infinity - Infinity\<close> are NaN). Finite arithmetic is exact: rounding to
  64-bit precision, overflow to an infinity and the sign of zero are not modelled, so a
  finite result is the real number the expression denotes. The only divisions by zero
  in the modelled code divide by an array length, which is the positive zero.
\<close>

datatype jsnum = Fin real | PInf | NInf | NaN

fun js_neg :: "jsnum \<Rightarrow> jsnum" where
  "js_neg (Fin a) = Fin (- a)"
| "js_neg PInf = NInf"
| "js_neg NInf = PInf"
| "js_neg NaN = NaN"

fun js_add :: "jsnum \<Rightarrow> jsnum \<Rightarrow> jsnum" where
  "js_add (Fin a) (Fin b) = Fin (a + b)"
| "js_add (Fin a) PInf = PInf"
| "js_add (Fin a) NInf = NInf"
| "js_add PInf (Fin b) = PInf"
| "js_add PInf PInf = PInf"
| "js_add PInf NInf = NaN"
| "js_add NInf (Fin b) = NInf"
| "js_add NInf PInf = NaN"
| "js_add NInf NInf = NInf"
| "js_add NaN b = NaN"
| "js_add a NaN = NaN"

definition js_sub :: "jsnum \<Rightarrow> jsnum \<Rightarrow> jsnum" where
  "js_sub a b = js_add a (js_neg b)"

fun js_mul :: "jsnum \<Rightarrow> jsnum \<Rightarrow> jsnum" where
  "js_mul (Fin a) (Fin b) = Fin (a * b)"
| "js_mul (Fin a) PInf = (if a = 0 then NaN else if 0 < a then PInf else NInf)"
| "js_mul (Fin a) NInf = (if a = 0 then NaN else if 0 < a then NInf else PInf)"
| "js_mul PInf (Fin b) = (if b = 0 then NaN else if 0 < b then PInf else NInf)"
| "js_mul NInf (Fin b) = (if b = 0 then NaN else if 0 < b then NInf else PInf)"
| "js_mul PInf PInf = PInf"
| "js_mul PInf NInf = NInf"
| "js_mul NInf PInf = NInf"
| "js_mul NInf NInf = PInf"
| "js_mul NaN b = NaN"
| "js_mul a NaN = NaN"

fun js_div :: "jsnum \<Rightarrow> jsnum \<Rightarrow> jsnum" where
  "js_div (Fin a) (Fin b) =
     (if b = 0 then (if a = 0 then NaN else if 0 < a then PInf else NInf)
      else Fin (a / b))"
| "js_div (Fin a) PInf = Fin 0"
| "js_div (Fin a) NInf = Fin 0"
| "js_div PInf (Fin b) = (if 0 \<le> b then PInf else NInf)"
| "js_div NInf (Fin b) = (if 0 \<le> b then NInf else PInf)"
| "js_div PInf PInf = NaN"
| "js_div PInf NInf = NaN"
| "js_div NInf PInf = NaN"
| "js_div NInf NInf = NaN"
| "js_div NaN b = NaN"
| "js_div a NaN = NaN"

text \<open>\<open>v ** 2\<close> and \<open>Math.sqrt\<close>.\<close>

fun js_pow2 :: "jsnum \<Rightarrow> jsnum" where
  "js_pow2 (Fin a) = Fin (a\<^sup>2)"
| "js_pow2 PInf = PInf"
| "js_pow2 NInf = PInf"
| "js_pow2 NaN = NaN"

fun Math_sqrt :: "jsnum \<Rightarrow> jsnum" where
  "Math_sqrt (Fin a) = (if a < 0 then NaN else Fin (sqrt a))"
| "Math_sqrt PInf = PInf"
| "Math_sqrt NInf = NaN"
| "Math_sqrt NaN = NaN"

text \<open>The relational operators \<open><\<close>, \<open>>\<close>, \<open>>=\<close> and strict equality \<open>===\<close>.\<close>

fun js_lt :: "jsnum \<Rightarrow> jsnum \<Rightarrow> bool" where
  "js_lt (Fin a) (Fin b) = (a < b)"
| "js_lt (Fin a) PInf = True"
| "js_lt NInf (Fin b) = True"
| "js_lt NInf PInf = True"
| "js_lt a b = False"

definition js_gt :: "jsnum \<Rightarrow> jsnum \<Rightarrow> bool" where
  "js_gt a b = js_lt b a"

definition js_eq :: "jsnum \<Rightarrow> jsnum \<Rightarrow> bool" where
  "js_eq a b = (a \<noteq> NaN \<and> b \<noteq> NaN \<and> a = b)"

definition js_ge :: "jsnum \<Rightarrow> jsnum \<Rightarrow> bool" where
  "js_ge a b = (js_lt b a \<or> js_eq a b)"

text \<open>\<open>Math.min\<close> and \<open>Math.max\<close> of two arguments: NaN when either argument is NaN.\<close>

definition Math_min :: "jsnum \<Rightarrow> jsnum \<Rightarrow> jsnum" where
  "Math_min a b = (if a = NaN \<or> b = NaN then NaN else if js_lt b a then b else a)"

definition Math_max :: "jsnum \<Rightarrow> jsnum \<Rightarrow> jsnum" where
  "Math_max a b = (if a = NaN \<or> b = NaN then NaN else if js_lt a b then b else a)"

section \<open>The zoom and pan hook: clamping a domain\<close>

text \<open>
  A domain is a two-element array of numbers; a hook argument that was not given is
  \<open>null\<close> or \<open>undefined\<close>, here \<open>None\<close>.
\<close>

type_synonym domain = "jsnum \<times> jsnum"

definition DOMAIN_EPSILON :: jsnum where
  "DOMAIN_EPSILON = Fin (1 / 1000000)"

text \<open>
  The two conditional shifts of \<open>clampDomain\<close>: a window that starts below the base is
  moved up by the overflow, then a window that ends above the base is moved down.
\<close>

definition shiftUp :: "jsnum \<Rightarrow> jsnum \<times> jsnum \<Rightarrow> jsnum \<times> jsnum" where
  "shiftUp baseMin c =
     (case c of (candMin, candMax) \<Rightarrow>
        if js_lt candMin baseMin
        then (let shift = js_sub baseMin candMin
              in (js_add candMin shift, js_add candMax shift))
        else (candMin, candMax))"

definition shiftDown :: "jsnum \<Rightarrow> jsnum \<times> jsnum \<Rightarrow> jsnum \<times> jsnum" where
  "shiftDown baseMax c =
     (case c of (candMin, candMax) \<Rightarrow>
        if js_gt candMax baseMax
        then (let shift = js_sub candMax baseMax
              in (js_sub candMin shift, js_sub candMax shift))
        else (candMin, candMax))"

definition clampDomain :: "domain option \<Rightarrow> domain option \<Rightarrow> domain option" where
  "clampDomain candidate base =
     (case candidate of
        None \<Rightarrow> base
      | Some (candStart, candEnd) \<Rightarrow>
          (case base of
             None \<Rightarrow> candidate
           | Some (base0, base1) \<Rightarrow>
               (let baseMin = Math_min base0 base1;
                    baseMax = Math_max base0 base1;
                    candMin = Math_min candStart candEnd;
                    candMax = Math_max candStart candEnd;
                    baseSpan = js_sub baseMax baseMin;
                    candSpan = js_sub candMax candMin;
                    cand = (if js_ge candSpan baseSpan then (baseMin, baseMax)
                            else (case shiftDown baseMax (shiftUp baseMin (candMin, candMax)) of
                                    (lo, hi) \<Rightarrow> (Math_max baseMin lo, Math_min baseMax hi)))
                in if js_lt (js_sub (snd cand) (fst cand)) DOMAIN_EPSILON
                   then Some (base0, base1)
                   else (let ascending = js_ge base1 base0
                         in if ascending then Some (fst cand, snd cand)
                            else Some (snd cand, fst cand)))))"

section \<open>Strings to numbers\<close>

text \<open>
  \<open>Number(s)\<close> on a string, as the language defines the conversion: surrounding white
  space is dropped, the empty string is 0, and the rest must be a decimal literal (an
  optional sign, digits with an optional fraction and exponent, or \<open>Infinity\<close>) or an
  unsigned hexadecimal, octal or binary literal; anything else is NaN. Strings are taken
  to be ASCII.
\<close>

definition is_ws :: "char \<Rightarrow> bool" where
  "is_ws c = (c = CHR '' '' \<or> c = CHR 0x09 \<or> c = CHR 0x0A \<or> c = CHR 0x0B
              \<or> c = CHR 0x0C \<or> c = CHR 0x0D)"

definition trim :: "string \<Rightarrow> string" where
  "trim s = rev (dropWhile is_ws (rev (dropWhile is_ws s)))"

text \<open>The value of a digit: its place among the digit characters, in either case.\<close>

fun place_of :: "char \<Rightarrow> string \<Rightarrow> nat \<Rightarrow> nat option" where
  "place_of c [] n = None"
| "place_of c (d # ds) n = (if c = d then Some n else place_of c ds (Suc n))"

definition hex_val :: "char \<Rightarrow> nat option" where
  "hex_val c =
     (case place_of c ''0123456789abcdef'' 0 of
        Some d \<Rightarrow> Some d
      | None \<Rightarrow> place_of c ''ABCDEF'' 10)"

definition is_digit_in :: "nat \<Rightarrow> char \<Rightarrow> bool" where
  "is_digit_in radix c = (case hex_val c of None \<Rightarrow> False | Some d \<Rightarrow> d < radix)"

text \<open>The value of a string of digits in a radix, most significant digit first.\<close>

fun digits_val :: "nat \<Rightarrow> nat \<Rightarrow> string \<Rightarrow> nat" where
  "digits_val radix acc [] = acc"
| "digits_val radix acc (c # cs) =
     digits_val radix (radix * acc + (case hex_val c of None \<Rightarrow> 0 | Some d \<Rightarrow> d)) cs"

definition all_digits :: "nat \<Rightarrow> string \<Rightarrow> bool" where
  "all_digits radix s = (s \<noteq> [] \<and> list_all (is_digit_in radix) s)"

definition nonDecimalLiteral :: "string \<Rightarrow> nat option" where
  "nonDecimalLiteral s =
     (case s of
        c0 # c1 # ds \<Rightarrow>
          (if c0 \<noteq> CHR ''0'' then None
           else if (c1 = CHR ''x'' \<or> c1 = CHR ''X'') \<and> all_digits 16 ds
             then Some (digits_val 16 0 ds)
           else if (c1 = CHR ''o'' \<or> c1 = CHR ''O'') \<and> all_digits 8 ds
             then Some (digits_val 8 0 ds)
           else if (c1 = CHR ''b'' \<or> c1 = CHR ''B'') \<and> all_digits 2 ds
             then Some (digits_val 2 0 ds)
           else None)
      | _ \<Rightarrow> None)"

text \<open>The exponent part: nothing, or \<open>e\<close> with an optionally signed run of digits.\<close>

definition exponentPart :: "string \<Rightarrow> int option" where
  "exponentPart s =
     (case s of
        [] \<Rightarrow> Some 0
      | c # t \<Rightarrow>
          (if c = CHR ''e'' \<or> c = CHR ''E'' then
             (case t of
                [] \<Rightarrow> None
              | d # ds \<Rightarrow>
                  (if d = CHR ''+'' then
                     (if all_digits 10 ds then Some (int (digits_val 10 0 ds)) else None)
                   else if d = CHR ''-'' then
                     (if all_digits 10 ds then Some (- int (digits_val 10 0 ds)) else None)
                   else if all_digits 10 t then Some (int (digits_val 10 0 t))
                   else None))
           else None))"

definition scale10 :: "real \<Rightarrow> int \<Rightarrow> real" where
  "scale10 m e = (if 0 \<le> e then m * 10 ^ nat e else m / 10 ^ nat (- e))"

definition unsignedDecimal :: "string \<Rightarrow> jsnum" where
  "unsignedDecimal s =
     (if s = ''Infinity'' then PInf
      else
        (let ip = takeWhile (is_digit_in 10) s;
             r1 = dropWhile (is_digit_in 10) s;
             fp = (case r1 of [] \<Rightarrow> []
                   | c # t \<Rightarrow> if c = CHR ''.'' then takeWhile (is_digit_in 10) t else []);
             r2 = (case r1 of [] \<Rightarrow> []
                   | c # t \<Rightarrow> if c = CHR ''.'' then dropWhile (is_digit_in 10) t else r1)
         in if ip = [] \<and> fp = [] then NaN
            else (case exponentPart r2 of
                    None \<Rightarrow> NaN
                  | Some e \<Rightarrow>
                      Fin (scale10 (real (digits_val 10 0 ip)
                                    + real (digits_val 10 0 fp) / 10 ^ length fp) e))))"

definition Number :: "string \<Rightarrow> jsnum" where
  "Number str =
     (let s = trim str
      in if s = [] then Fin 0
         else (case nonDecimalLiteral s of
                 Some n \<Rightarrow> Fin (real n)
               | None \<Rightarrow>
                   (case s of
                      [] \<Rightarrow> Fin 0
                    | c # t \<Rightarrow>
                        if c = CHR ''+'' then unsignedDecimal t
                        else if c = CHR ''-'' then js_neg (unsignedDecimal t)
                        else unsignedDecimal s)))"

text \<open>\<open>s.split(sep)\<close> for a one-character separator: never the empty array.\<close>

fun split :: "char \<Rightarrow> string \<Rightarrow> string list" where
  "split sep [] = [[]]"
| "split sep (c # cs) =
     (if c = sep then [] # split sep cs
      else (case split sep cs of
              [] \<Rightarrow> [[c]]
            | h # t \<Rightarrow> (c # h) # t))"

text \<open>
  An array destructuring \<open>[a, b, c] = parts\<close> binds a position past the end of the array
  to \<open>undefined\<close>, which every arithmetic operator converts to NaN.
\<close>

definition element :: "jsnum list \<Rightarrow> nat \<Rightarrow> jsnum" where
  "element parts i = (if i < length parts then parts ! i else NaN)"

section \<open>Parsing a row of the dataset\<close>

text \<open>
  A row as the CSV reader hands it to \<open>parseRow\<close>: one string per column of the header.
\<close>

record rawRow =
  row_episode :: string
  row_title :: string
  row_description :: string
  row_guest :: string
  row_duration :: string
  row_downloads :: string
  row_completion_numbers :: string
  row_new_listeners :: string
  row_returning_listeners :: string
  row_subscribers_gained :: string
  row_social_media_shares :: string

record parsedRow =
  episode :: jsnum
  title :: string
  description :: string
  guest :: string
  durationMinutes :: jsnum
  downloads :: jsnum
  completionNumbers :: jsnum
  completionRate :: jsnum
  newListeners :: jsnum
  returningListeners :: jsnum
  listenersTotal :: jsnum
  subscribersGained :: jsnum
  socialMediaShares :: jsnum

definition parseRow :: "rawRow \<Rightarrow> parsedRow" where
  "parseRow row =
     (let parts = map Number (split (CHR '':'') (row_duration row));
          hours = element parts 0;
          minutes = element parts 1;
          seconds = element parts 2;
          durationMinutes' = js_add (js_add (js_mul hours (Fin 60)) minutes)
                                     (js_div seconds (Fin 60));
          downloads' = Number (row_downloads row);
          completionNumbers' = Number (row_completion_numbers row);
          newListeners' = Number (row_new_listeners row);
          returningListeners' = Number (row_returning_listeners row);
          listenersTotal' = js_add newListeners' returningListeners'
      in \<lparr> episode = Number (row_episode row),
           title = row_title row,
           description = row_description row,
           guest = row_guest row,
           durationMinutes = durationMinutes',
           downloads = downloads',
           completionNumbers = completionNumbers',
           completionRate = (if js_eq downloads' (Fin 0) then Fin 0
                             else js_div completionNumbers' downloads'),
           newListeners = newListeners',
           returningListeners = returningListeners',
           listenersTotal = listenersTotal',
           subscribersGained = Number (row_subscribers_gained row),
           socialMediaShares = Number (row_social_media_shares row) \<rparr>)"

section \<open>Windows, averages and correlation\<close>

text \<open>\<open>xs.slice(start, stop)\<close>: a negative index counts from the end, both are clipped.\<close>

definition slice :: "'a list \<Rightarrow> int \<Rightarrow> int \<Rightarrow> 'a list" where
  "slice xs start stop =
     (let len = int (length xs);
          k = (if start < 0 then max (len + start) 0 else min start len);
          final = (if stop < 0 then max (len + stop) 0 else min stop len)
      in take (nat (final - k)) (drop (nat k) xs))"

definition sliceFrom :: "'a list \<Rightarrow> int \<Rightarrow> 'a list" where
  "sliceFrom xs start = slice xs start (int (length xs))"

definition lengthOf :: "'a list \<Rightarrow> jsnum" where
  "lengthOf xs = Fin (real (length xs))"

definition averageInWindow :: "'a list \<Rightarrow> int \<Rightarrow> ('a \<Rightarrow> jsnum) \<Rightarrow> int \<Rightarrow> jsnum" where
  "averageInWindow series index accessor window =
     (let start = max 0 (index - (window - 1));
          sl = slice series start (index + 1);
          total = foldl (\<lambda>sum item. js_add sum (accessor item)) (Fin 0) sl
      in js_div total (lengthOf sl))"

definition variance :: "jsnum list \<Rightarrow> jsnum \<Rightarrow> jsnum" where
  "variance vals mean = foldl (\<lambda>sum v. js_add sum (js_pow2 (js_sub v mean))) (Fin 0) vals"

text \<open>
  In the numerator \<open>ys[idx]\<close> is read at the indices of \<open>xs\<close>; both arrays are maps of the
  same series, so the index is always in range.
\<close>

definition correlation :: "'a list \<Rightarrow> ('a \<Rightarrow> jsnum) \<Rightarrow> ('a \<Rightarrow> jsnum) \<Rightarrow> jsnum" where
  "correlation series xAccessor yAccessor =
     (let xs = map xAccessor series;
          ys = map yAccessor series;
          n = length xs
      in if n = 0 then Fin 0
         else
           (let meanX = js_div (foldl (\<lambda>sum v. js_add sum v) (Fin 0) xs) (Fin (real n));
                meanY = js_div (foldl (\<lambda>sum v. js_add sum v) (Fin 0) ys) (Fin (real n));
                numerator =
                  foldl (\<lambda>sum (x, idx). js_add sum (js_mul (js_sub x meanX)
                                                            (js_sub (ys ! idx) meanY)))
                        (Fin 0) (zip xs [0..<n]);
                denominator = Math_sqrt (js_mul (variance xs meanX) (variance ys meanY))
            in if js_eq denominator (Fin 0) then Fin 0
               else js_div numerator denominator))"

definition arrAverage :: "'a list \<Rightarrow> ('a \<Rightarrow> jsnum) \<Rightarrow> jsnum" where
  "arrAverage arr accessor =
     js_div (foldl (\<lambda>sum item. js_add sum (accessor item)) (Fin 0) arr) (lengthOf arr)"

section \<open>The derived series, its summary and the insights\<close>

record episodeRecord = parsedRow +
  cumulativeSubscribers :: jsnum
  cumulativeDownloads :: jsnum
  downloadsRolling :: jsnum
  completionRolling :: jsnum
  newListenerRatio :: jsnum
  subscribersPerThousandDownloads :: jsnum
  sharesPerThousandDownloads :: jsnum

text \<open>
  The object the \<open>map\<close> callback returns for \<open>item\<close> at \<open>idx\<close>, given the two running
  totals after \<open>item\<close> was added to them.
\<close>

definition deriveEpisode ::
  "parsedRow list \<Rightarrow> nat \<Rightarrow> jsnum \<Rightarrow> jsnum \<Rightarrow> parsedRow \<Rightarrow> episodeRecord" where
  "deriveEpisode raw idx cumSubscribers cumDownloads item =
     \<lparr> episode = episode item,
       title = title item,
       description = description item,
       guest = guest item,
       durationMinutes = durationMinutes item,
       downloads = downloads item,
       completionNumbers = completionNumbers item,
       completionRate = completionRate item,
       newListeners = newListeners item,
       returningListeners = returningListeners item,
       listenersTotal = listenersTotal item,
       subscribersGained = subscribersGained item,
       socialMediaShares = socialMediaShares item,
       cumulativeSubscribers = cumSubscribers,
       cumulativeDownloads = cumDownloads,
       downloadsRolling = averageInWindow raw (int idx) downloads 7,
       completionRolling = averageInWindow raw (int idx) completionRate 7,
       newListenerRatio = (if js_eq (listenersTotal item) (Fin 0) then Fin 0
                           else js_div (newListeners item) (listenersTotal item)),
       subscribersPerThousandDownloads =
         (if js_eq (downloads item) (Fin 0) then Fin 0
          else js_mul (js_div (subscribersGained item) (downloads item)) (Fin 1000)),
       sharesPerThousandDownloads =
         (if js_eq (downloads item) (Fin 0) then Fin 0
          else js_mul (js_div (socialMediaShares item) (downloads item)) (Fin 1000)) \<rparr>"

text \<open>
  \<open>raw.map\<close> with the two mutable running totals: the items still to visit, the index of
  the first of them and the totals so far; the result is the episodes with the final
  totals.
\<close>

fun deriveLoop ::
  "parsedRow list \<Rightarrow> nat \<Rightarrow> jsnum \<Rightarrow> jsnum \<Rightarrow> parsedRow list
   \<Rightarrow> episodeRecord list \<times> jsnum \<times> jsnum" where
  "deriveLoop raw idx cumSubscribers cumDownloads [] = ([], cumSubscribers, cumDownloads)"
| "deriveLoop raw idx cumSubscribers cumDownloads (item # rest) =
     (let cumSubscribers' = js_add cumSubscribers (subscribersGained item);
          cumDownloads' = js_add cumDownloads (downloads item);
          ep = deriveEpisode raw idx cumSubscribers' cumDownloads' item
      in (case deriveLoop raw (Suc idx) cumSubscribers' cumDownloads' rest of
            (eps, s, d) \<Rightarrow> (ep # eps, s, d)))"

definition episodesOf :: "parsedRow list \<Rightarrow> episodeRecord list" where
  "episodesOf raw = fst (deriveLoop raw 0 (Fin 0) (Fin 0) raw)"

definition totalSubscribersOf :: "parsedRow list \<Rightarrow> jsnum" where
  "totalSubscribersOf raw = fst (snd (deriveLoop raw 0 (Fin 0) (Fin 0) raw))"

record summaryStatistics =
  totalEpisodes :: nat
  averageDownloads :: jsnum
  averageCompletionRate :: jsnum
  averageDuration :: jsnum
  totalSubscribers :: jsnum
  downloadsGrowthPercent :: jsnum
  completionRateChange :: jsnum
  newListenerShareChange :: jsnum
  sharesSubscribersCorrelation :: jsnum
  durationCompletionCorrelation :: jsnum
  latestEpisode :: episodeRecord

text \<open>
  The summary of a series that is not empty (\<open>latestEpisode\<close> reads the last element),
  from the episodes and the final subscriber total.
\<close>

definition summaryOf :: "episodeRecord list \<Rightarrow> jsnum \<Rightarrow> summaryStatistics" where
  "summaryOf eps cumSubscribers =
     (let halfwayIndex = int (length eps div 2);
          earlySlice = slice eps 0 halfwayIndex;
          lateSlice = sliceFrom eps halfwayIndex;
          averageDownloadsEarly = arrAverage earlySlice downloads;
          averageDownloadsLate = arrAverage lateSlice downloads;
          avgCompletionEarly = arrAverage earlySlice completionRate;
          avgCompletionLate = arrAverage lateSlice completionRate;
          avgNewListenerRatioEarly = arrAverage earlySlice newListenerRatio;
          avgNewListenerRatioLate = arrAverage lateSlice newListenerRatio
      in \<lparr> totalEpisodes = length eps,
           averageDownloads = arrAverage eps downloads,
           averageCompletionRate = arrAverage eps completionRate,
           averageDuration = arrAverage eps durationMinutes,
           totalSubscribers = cumSubscribers,
           downloadsGrowthPercent =
             (if js_eq averageDownloadsEarly (Fin 0) then Fin 0
              else js_mul (js_div (js_sub averageDownloadsLate averageDownloadsEarly)
                                  averageDownloadsEarly) (Fin 100)),
           completionRateChange =
             js_mul (js_sub avgCompletionLate avgCompletionEarly) (Fin 100),
           newListenerShareChange =
             js_mul (js_sub avgNewListenerRatioLate avgNewListenerRatioEarly) (Fin 100),
           sharesSubscribersCorrelation = correlation eps socialMediaShares subscribersGained,
           durationCompletionCorrelation = correlation eps durationMinutes completionRate,
           latestEpisode = eps ! (length eps - 1) \<rparr>)"

text \<open>
  The number formatting of the host (\<open>toFixed\<close>, \<open>toLocaleString\<close>) is a parameter of the
  insight texts.
\<close>

definition formatPercent :: "(jsnum \<Rightarrow> nat \<Rightarrow> string) \<Rightarrow> jsnum \<Rightarrow> nat \<Rightarrow> string" where
  "formatPercent toFixed v digits =
     (if js_ge v (Fin 0) then ''+'' else []) @ toFixed v digits @ ''%''"

definition sharesToSubs :: "(jsnum \<Rightarrow> nat \<Rightarrow> string) \<Rightarrow> jsnum \<Rightarrow> string" where
  "sharesToSubs toFixed r =
     (if js_ge r (Fin 0)
      then ''Social sharing strongly correlates with subscriber gains (r = ''
           @ toFixed r 2 @ '').''
      else ''Higher social sharing currently coincides with fewer subscribers (r = ''
           @ toFixed r 2 @ '').'')"

definition duration :: "(jsnum \<Rightarrow> nat \<Rightarrow> string) \<Rightarrow> jsnum \<Rightarrow> string" where
  "duration toFixed r =
     (if js_ge r (Fin 0)
      then ''Longer episodes trend toward stronger completion rates (r = ''
           @ toFixed r 2 @ '').''
      else ''Longer episodes trend toward lower completion (r = ''
           @ toFixed r 2 @ ''); consider testing shorter cuts.'')"

definition insightsOf ::
  "(jsnum \<Rightarrow> nat \<Rightarrow> string) \<Rightarrow> (jsnum \<Rightarrow> string) \<Rightarrow> summaryStatistics
   \<Rightarrow> (string \<times> string) list" where
  "insightsOf toFixed toLocaleString s =
     [(''downloads'',
         ''Recent episodes are averaging ''
         @ formatPercent toFixed (downloadsGrowthPercent s) 1
         @ '' downloads versus the earliest half of the catalog.''),
      (''completion'',
         ''Completion rate moved '' @ formatPercent toFixed (completionRateChange s) 1
         @ '' from early episodes to the latest half.''),
      (''listenerMix'',
         ''New listeners make up '' @ formatPercent toFixed (newListenerShareChange s) 1
         @ '' more of the audience in newer episodes.''),
      (''subscriberGrowth'',
         ''Total subscribers climbed to '' @ toLocaleString (totalSubscribers s)
         @ '' with the latest release.''),
      (''sharesToSubs'', sharesToSubs toFixed (sharesSubscribersCorrelation s)),
      (''duration'', duration toFixed (durationCompletionCorrelation s))]"

record memo =
  episodes :: "episodeRecord list"
  summary :: "summaryStatistics option"
  insights :: "(string \<times> string) list"

definition memoized ::
  "(jsnum \<Rightarrow> nat \<Rightarrow> string) \<Rightarrow> (jsnum \<Rightarrow> string) \<Rightarrow> parsedRow list \<Rightarrow> memo" where
  "memoized toFixed toLocaleString raw =
     (if length raw = 0 then \<lparr> episodes = [], summary = None, insights = [] \<rparr>
      else
        (let s = summaryOf (episodesOf raw) (totalSubscribersOf raw)
         in \<lparr> episodes = episodesOf raw,
              summary = Some s,
              insights = insightsOf toFixed toLocaleString s \<rparr>))"

section \<open>The data hook\<close>

text \<open>
  The hook's state, the outcome of the one fetch of the dataset, and what the hook
  returns. An array sort with a comparator is stable; the comparator's NaN counts as 0.
\<close>

record 'e hookState =
  st_raw :: "parsedRow list"
  st_loading :: bool
  st_error :: "'e option"

datatype 'e fetched = Rejected 'e | Resolved "rawRow list"

definition initialState :: "'e hookState" where
  "initialState = \<lparr> st_raw = [], st_loading = True, st_error = None \<rparr>"

fun insertRow :: "parsedRow \<Rightarrow> parsedRow list \<Rightarrow> parsedRow list" where
  "insertRow a [] = [a]"
| "insertRow a (b # bs) =
     (if js_gt (js_sub (episode a) (episode b)) (Fin 0) then b # insertRow a bs
      else a # b # bs)"

definition sortRows :: "parsedRow list \<Rightarrow> parsedRow list" where
  "sortRows rows = foldr insertRow rows []"

fun settle :: "'e fetched \<Rightarrow> 'e hookState \<Rightarrow> 'e hookState" where
  "settle (Resolved rows) st = st \<lparr> st_raw := sortRows (map parseRow rows), st_loading := False \<rparr>"
| "settle (Rejected err) st = st \<lparr> st_error := Some err, st_loading := False \<rparr>"

record 'e hookResult = memo +
  loading :: bool
  error :: "'e option"

definition usePodcastData ::
  "(jsnum \<Rightarrow> nat \<Rightarrow> string) \<Rightarrow> (jsnum \<Rightarrow> string) \<Rightarrow> 'e hookState \<Rightarrow> 'e hookResult" where
  "usePodcastData toFixed toLocaleString st =
     (let m = memoized toFixed toLocaleString (st_raw st)
      in \<lparr> episodes = episodes m, summary = summary m, insights = insights m,
           loading = st_loading st, error = st_error st \<rparr>)"

section \<open>A sample dataset\<close>

text \<open>
  Rows in the shape of the dataset, used to run the definitions on concrete input: the
  episode number, the duration and the download count vary, the other columns are fixed.
\<close>

definition exampleRow :: "string \<Rightarrow> string \<Rightarrow> string \<Rightarrow> rawRow" where
  "exampleRow ep dur dl =
     \<lparr> row_episode = ep,
       row_title = ''Pilot'',
       row_description = [],
       row_guest = [],
       row_duration = dur,
       row_downloads = dl,
       row_completion_numbers = ''50'',
       row_new_listeners = ''30'',
       row_returning_listeners = ''20'',
       row_subscribers_gained = ''5'',
       row_social_media_shares = ''7'' \<rparr>"

definition tenRows :: "rawRow list" where
  "tenRows =
     [exampleRow ''1'' ''00:30:00'' ''10'', exampleRow ''2'' ''00:30:00'' ''20'',
      exampleRow ''3'' ''00:30:00'' ''30'', exampleRow ''4'' ''00:30:00'' ''40'',
      exampleRow ''5'' ''00:30:00'' ''50'', exampleRow ''6'' ''00:30:00'' ''60'',
      exampleRow ''7'' ''00:30:00'' ''70'', exampleRow ''8'' ''00:30:00'' ''80'',
      exampleRow ''9'' ''00:30:00'' ''90'', exampleRow ''10'' ''00:30:00'' ''100'']"

section \<open>Facts about the number operations\<close>

lemma NaN_simps [simp]:
  "js_add x NaN = NaN" "js_add NaN x = NaN"
  "js_sub x NaN = NaN" "js_sub NaN x = NaN"
  "js_mul x NaN = NaN" "js_mul NaN x = NaN"
  "js_div x NaN = NaN" "js_div NaN x = NaN"
  "js_lt x NaN = False" "js_lt NaN x = False"
  "js_gt x NaN = False" "js_gt NaN x = False"
  "js_ge x NaN = False" "js_ge NaN x = False"
  "js_eq x NaN = False" "js_eq NaN x = False"
  "Math_min x NaN = NaN" "Math_min NaN x = NaN"
  "Math_max x NaN = NaN" "Math_max NaN x = NaN"
  by (cases x; simp add: js_sub_def js_gt_def js_ge_def js_eq_def Math_min_def Math_max_def)+

lemma Fin_simps [simp]:
  "Math_min (Fin a) (Fin b) = Fin (min a b)"
  "Math_max (Fin a) (Fin b) = Fin (max a b)"
  "js_sub (Fin a) (Fin b) = Fin (a - b)"
  "js_ge (Fin a) (Fin b) = (b \<le> a)"
  "js_gt (Fin a) (Fin b) = (b < a)"
  "js_eq (Fin a) (Fin b) = (a = b)"
  by (auto simp add: Math_min_def Math_max_def js_sub_def js_ge_def js_gt_def js_eq_def)

section \<open>How \<open>clampDomain\<close> treats a base domain with finite bounds\<close>

text \<open>A candidate at least as wide as the base collapses to the base.\<close>

lemma clamp_collapse:
  assumes "js_ge (js_sub (Math_max c0 c1) (Math_min c0 c1)) (Fin (max b0 b1 - min b0 b1))"
  shows "clampDomain (Some (c0, c1)) (Some (Fin b0, Fin b1)) = Some (Fin b0, Fin b1)"
proof (cases "b0 \<le> b1")
  case True
  with assms show ?thesis
    by (simp add: clampDomain_def Let_def DOMAIN_EPSILON_def max_absorb2 min_absorb1)
next
  case False
  with assms show ?thesis
    by (simp add: clampDomain_def Let_def DOMAIN_EPSILON_def max_absorb1 min_absorb2)
qed




text \<open>
  A narrower window is translated into the base: up when it starts below, down when it
  ends above. Its width is kept, so the clip that follows changes nothing.
\<close>

lemma clamp_window_aux:
  assumes "bmin \<le> bmax" "cmin \<le> cmax" "cmax - cmin < bmax - bmin"
  shows "(case shiftDown (Fin bmax) (shiftUp (Fin bmin) (Fin cmin, Fin cmax)) of
           (lo, hi) \<Rightarrow> (Math_max (Fin bmin) lo, Math_min (Fin bmax) hi))
         = (let lo = (if cmin < bmin then bmin
                      else if bmax < cmax then bmax - (cmax - cmin) else cmin)
            in (Fin lo, Fin (lo + (cmax - cmin))))"
  using assms by (auto simp add: shiftUp_def shiftDown_def Let_def)

lemma clamp_fin_window_gen:
  assumes eqs: "min b0 b1 = bmin" "max b0 b1 = bmax" "min c0 c1 = cmin" "max c0 c1 = cmax"
    and lt: "cmax - cmin < bmax - bmin"
  shows "clampDomain (Some (Fin c0, Fin c1)) (Some (Fin b0, Fin b1)) =
         (let lo = (if cmin < bmin then bmin
                    else if bmax < cmax then bmax - (cmax - cmin) else cmin);
              hi = lo + (cmax - cmin)
          in if cmax - cmin < 1 / 1000000 then Some (Fin b0, Fin b1)
             else if b0 \<le> b1 then Some (Fin lo, Fin hi) else Some (Fin hi, Fin lo))"
proof -
  have le: "bmin \<le> bmax" "cmin \<le> cmax"
    using eqs by (metis min.cobounded1 max.cobounded1 order_trans)+
  note w = clamp_window_aux[OF le lt]
  show ?thesis
    unfolding clampDomain_def Fin_simps(1,2) eqs option.case prod.case
    using lt by (simp add: Let_def w DOMAIN_EPSILON_def)
qed

lemma clamp_fin_window:
  assumes "max c0 c1 - min c0 c1 < max b0 b1 - min b0 b1"
  shows "clampDomain (Some (Fin c0, Fin c1)) (Some (Fin b0, Fin b1)) =
         (let lo = (if min c0 c1 < min b0 b1 then min b0 b1
                    else if max b0 b1 < max c0 c1 then max b0 b1 - (max c0 c1 - min c0 c1)
                    else min c0 c1);
              hi = lo + (max c0 c1 - min c0 c1)
          in if max c0 c1 - min c0 c1 < 1 / 1000000 then Some (Fin b0, Fin b1)
             else if b0 \<le> b1 then Some (Fin lo, Fin hi) else Some (Fin hi, Fin lo))"
  by (rule clamp_fin_window_gen[OF refl refl refl refl assms])






section \<open>Panning past an edge\<close>

text \<open>
  C1 (as the code has it). The scenario of the claim: base \<open>[1, 50]\<close>, candidate
  \<open>[-5, 44]\<close>. The candidate is as wide as the base (49), so the clamp gives the whole
  base \<open>[1, 50]\<close>, not \<open>[1, 49]\<close>.
\<close>

theorem pan_past_edge_not_1_49:
  "clampDomain (Some (Fin (- 5), Fin 44)) (Some (Fin 1, Fin 50)) \<noteq> Some (Fin 1, Fin 49)"
  by (simp add: clamp_collapse)

text \<open>
  C1, amended. For an ascending base with finite bounds and a candidate that starts
  below the base, is no wider than the base and not narrower than epsilon, the clamp
  moves the window up to the base minimum and keeps its width: the result is
  \<open>[b0, b0 + (c1 - c0)]\<close>. Nothing is cut off the window.
\<close>

theorem clampDomain_shifts_window_up:
  assumes "b0 \<le> b1" and "c0 \<le> c1" and "c0 < b0"
    and "c1 - c0 \<le> b1 - b0" and "1 / 1000000 \<le> c1 - c0"
  shows "clampDomain (Some (Fin c0, Fin c1)) (Some (Fin b0, Fin b1))
         = Some (Fin b0, Fin (b0 + (c1 - c0)))"
proof (cases "c1 - c0 < b1 - b0")
  case True
  with assms have "max c0 c1 - min c0 c1 < max b0 b1 - min b0 b1" by simp
  from clamp_fin_window[OF this] assms True show ?thesis
    by (simp add: Let_def)
next
  case False
  with assms have e: "c1 - c0 = b1 - b0" by simp
  with assms have "clampDomain (Some (Fin c0, Fin c1)) (Some (Fin b0, Fin b1))
                   = Some (Fin b0, Fin b1)"
    by (intro clamp_collapse) simp
  with e show ?thesis by simp
qed

theorem pan_past_edge_gives_base:
  "clampDomain (Some (Fin (- 5), Fin 44)) (Some (Fin 1, Fin 50)) = Some (Fin 1, Fin 50)"
  using clampDomain_shifts_window_up[of 1 50 "- 5" 44] by simp

section \<open>In-bounds candidates, wide candidates and idempotence\<close>




section \<open>Degenerate base domains\<close>

text \<open>
  C7 (as the code has it). A base domain with a NaN bound is not reported verbatim:
  every comparison with NaN is false, so no guard applies and NaN reaches both bounds
  of the result.
\<close>

theorem nan_base_not_reported:
  "clampDomain (Some (Fin 10, Fin 20)) (Some (NaN, Fin 50)) \<noteq> Some (NaN, Fin 50)"
  by (simp add: clampDomain_def shiftUp_def shiftDown_def Let_def)

text \<open>
  C7, amended. For a base domain whose two bounds are the same finite number, the clamp
  returns the base domain verbatim for an absent candidate and for every candidate whose
  span is a number (no NaN bound, and not twice the same infinity). For a base domain
  with a NaN bound, every candidate that is given leads to \<open>[NaN, NaN]\<close>.
\<close>

theorem clampDomain_degenerate_base:
  "((c = None \<or> (\<exists>c0 c1. c = Some (c0, c1)
                     \<and> js_sub (Math_max c0 c1) (Math_min c0 c1) \<noteq> NaN))
    \<longrightarrow> clampDomain c (Some (Fin b, Fin b)) = Some (Fin b, Fin b))
   \<and> ((b0 = NaN \<or> b1 = NaN)
    \<longrightarrow> clampDomain (Some (d0, d1)) (Some (b0, b1)) = Some (NaN, NaN))"
proof (intro conjI impI)
  assume "c = None \<or> (\<exists>c0 c1. c = Some (c0, c1)
                     \<and> js_sub (Math_max c0 c1) (Math_min c0 c1) \<noteq> NaN)"
  then show "clampDomain c (Some (Fin b, Fin b)) = Some (Fin b, Fin b)"
  proof
    assume "c = None"
    then show ?thesis by (simp add: clampDomain_def)
  next
    assume "\<exists>c0 c1. c = Some (c0, c1) \<and> js_sub (Math_max c0 c1) (Math_min c0 c1) \<noteq> NaN"
    then obtain c0 c1 where c: "c = Some (c0, c1)"
      and s: "js_sub (Math_max c0 c1) (Math_min c0 c1) \<noteq> NaN" by blast
    have "js_ge (js_sub (Math_max c0 c1) (Math_min c0 c1)) (Fin (max b b - min b b))"
      using s
      by (cases c0; cases c1)
         (simp_all add: Math_min_def Math_max_def js_sub_def js_ge_def js_eq_def)
    then show ?thesis unfolding c by (rule clamp_collapse)
  qed
next
  assume "b0 = NaN \<or> b1 = NaN"
  then have m: "Math_min b0 b1 = NaN" "Math_max b0 b1 = NaN" by auto
  show "clampDomain (Some (d0, d1)) (Some (b0, b1)) = Some (NaN, NaN)"
    unfolding clampDomain_def option.case prod.case m
    by (simp add: Let_def shiftUp_def shiftDown_def)
qed

theorem clampDomain_degenerate_base_witness:
  "clampDomain (Some (Fin 10, Fin 20)) (Some (Fin 5, Fin 5)) = Some (Fin 5, Fin 5)
   \<and> clampDomain None (Some (Fin 5, Fin 5)) = Some (Fin 5, Fin 5)
   \<and> clampDomain (Some (Fin 10, Fin 20)) (Some (Fin 0, NaN)) = Some (NaN, NaN)"
  using clampDomain_degenerate_base[of "Some (Fin 10, Fin 20)" 5 "Fin 0" NaN "Fin 10" "Fin 20"]
    clampDomain_degenerate_base[of None 5 NaN NaN NaN NaN]
  by simp

section \<open>Durations\<close>

lemmas Number_defs = Number_def trim_def is_ws_def nonDecimalLiteral_def unsignedDecimal_def
  is_digit_in_def hex_val_def exponentPart_def scale10_def all_digits_def






section \<open>The derived episodes\<close>

lemma deriveLoop_Cons:
  "fst (deriveLoop raw idx cs cd (item # rest)) =
     deriveEpisode raw idx (js_add cs (subscribersGained item)) (js_add cd (downloads item)) item
     # fst (deriveLoop raw (Suc idx) (js_add cs (subscribersGained item))
                       (js_add cd (downloads item)) rest)"
  "snd (deriveLoop raw idx cs cd (item # rest)) =
     snd (deriveLoop raw (Suc idx) (js_add cs (subscribersGained item))
                     (js_add cd (downloads item)) rest)"
  by (simp_all add: Let_def split_beta)

lemma deriveLoop_length:
  "length (fst (deriveLoop raw idx cs cd items)) = length items"
  by (induction items arbitrary: idx cs cd)
     (simp_all add: deriveLoop_Cons del: deriveLoop.simps(2))

text \<open>
  The episode at position \<open>k\<close> is built from the item at \<open>k\<close>, its index and the running
  totals up to and including that item.
\<close>

lemma deriveLoop_nth:
  "k < length items \<Longrightarrow>
   fst (deriveLoop raw idx cs cd items) ! k =
     deriveEpisode raw (idx + k)
       (foldl js_add cs (map subscribersGained (take (Suc k) items)))
       (foldl js_add cd (map downloads (take (Suc k) items)))
       (items ! k)"
proof (induction items arbitrary: idx cs cd k)
  case Nil
  then show ?case by simp
next
  case (Cons item rest)
  show ?case
  proof (cases k)
    case 0
    then show ?thesis by (simp add: deriveLoop_Cons del: deriveLoop.simps(2))
  next
    case (Suc j)
    with Cons.prems have "j < length rest" by simp
    from Cons.IH[OF this] Suc show ?thesis
      by (simp add: deriveLoop_Cons del: deriveLoop.simps(2))
  qed
qed

lemma length_episodesOf: "length (episodesOf raw) = length raw"
  by (simp add: episodesOf_def deriveLoop_length)

lemma episodesOf_nth:
  "i < length raw \<Longrightarrow>
   episodesOf raw ! i =
     deriveEpisode raw i
       (foldl js_add (Fin 0) (map subscribersGained (take (Suc i) raw)))
       (foldl js_add (Fin 0) (map downloads (take (Suc i) raw)))
       (raw ! i)"
  using deriveLoop_nth[of i raw raw 0 "Fin 0" "Fin 0"] by (simp add: episodesOf_def)

section \<open>The guard on zero downloads\<close>

text \<open>
  C10. A row whose downloads are 0 has completion rate 0, and every episode derived from
  an item whose downloads are 0 has \<open>subscribersPerThousandDownloads = 0\<close> and
  \<open>sharesPerThousandDownloads = 0\<close>: the division is not evaluated.
\<close>

theorem zero_downloads_guard:
  "(downloads (parseRow row) = Fin 0 \<longrightarrow> completionRate (parseRow row) = Fin 0)
   \<and> (\<forall>ep \<in> set (episodesOf raw). downloads ep = Fin 0 \<longrightarrow>
         subscribersPerThousandDownloads ep = Fin 0 \<and> sharesPerThousandDownloads ep = Fin 0)"
proof (rule conjI)
  show "downloads (parseRow row) = Fin 0 \<longrightarrow> completionRate (parseRow row) = Fin 0"
    by (simp add: parseRow_def Let_def)
next
  show "\<forall>ep \<in> set (episodesOf raw). downloads ep = Fin 0 \<longrightarrow>
         subscribersPerThousandDownloads ep = Fin 0 \<and> sharesPerThousandDownloads ep = Fin 0"
  proof (rule ballI, rule impI)
    fix ep
    assume ep: "ep \<in> set (episodesOf raw)" and z: "downloads ep = Fin 0"
    from ep obtain i where i: "i < length raw" "ep = episodesOf raw ! i"
      by (auto simp add: in_set_conv_nth length_episodesOf)
    from z have "downloads (raw ! i) = Fin 0"
      by (simp add: i(2) episodesOf_nth[OF i(1)] deriveEpisode_def)
    then show "subscribersPerThousandDownloads ep = Fin 0
               \<and> sharesPerThousandDownloads ep = Fin 0"
      by (simp add: i(2) episodesOf_nth[OF i(1)] deriveEpisode_def)
  qed
qed

theorem zero_downloads_guard_witness:
  "downloads (parseRow (exampleRow ''1'' ''00:30:00'' ''0'')) = Fin 0
   \<and> completionRate (parseRow (exampleRow ''1'' ''00:30:00'' ''0'')) = Fin 0
   \<and> subscribersPerThousandDownloads
         (episodesOf [parseRow (exampleRow ''1'' ''00:30:00'' ''0'')] ! 0) = Fin 0
   \<and> sharesPerThousandDownloads
         (episodesOf [parseRow (exampleRow ''1'' ''00:30:00'' ''0'')] ! 0) = Fin 0"
proof -
  define r where "r = parseRow (exampleRow ''1'' ''00:30:00'' ''0'')"
  have "Number ''0'' = Fin 0"
    by (simp add: Number_defs)
  then have d: "downloads r = Fin 0"
    by (simp add: r_def parseRow_def exampleRow_def Let_def)
  have m: "episodesOf [r] ! 0 \<in> set (episodesOf [r])"
    by (simp add: length_episodesOf)
  have dd: "downloads (episodesOf [r] ! 0) = Fin 0"
    by (simp add: episodesOf_nth deriveEpisode_def d)
  from zero_downloads_guard[of "exampleRow ''1'' ''00:30:00'' ''0''" "[r]"] d m dd
  show ?thesis unfolding r_def by blast
qed

section \<open>A series of one episode\<close>

lemma arrAverage_Nil: "arrAverage [] f = NaN"
  by (simp add: arrAverage_def lengthOf_def)

text \<open>
  C9. For a series of exactly one episode the early half is empty, its averages are
  \<open>0 / 0 = NaN\<close>, and the summary is published with \<open>downloadsGrowthPercent\<close>,
  \<open>completionRateChange\<close> and \<open>newListenerShareChange\<close> all NaN.
\<close>

theorem single_episode_summary:
  assumes "length raw = 1"
  shows "slice (episodesOf raw) 0 (int (length (episodesOf raw) div 2)) = []
   \<and> (\<exists>s. summary (memoized toFixed toLocaleString raw) = Some s
        \<and> downloadsGrowthPercent s = NaN
        \<and> completionRateChange s = NaN
        \<and> newListenerShareChange s = NaN)"
proof -
  have l: "length (episodesOf raw) = 1" using assms by (simp add: length_episodesOf)
  have e: "slice (episodesOf raw) 0 (int (length (episodesOf raw) div 2)) = []"
    by (simp add: l slice_def)
  have e0: "slice (episodesOf raw) 0 0 = []" using e l by simp
  show ?thesis
    using assms e
    by (simp add: memoized_def summaryOf_def Let_def l e0 arrAverage_Nil)
qed

theorem single_episode_summary_witness:
  "map_option downloadsGrowthPercent
     (summary (memoized (\<lambda>v d. []) (\<lambda>v. []) [parseRow (exampleRow ''1'' ''00:30:00'' ''10'')]))
     = Some NaN
   \<and> map_option completionRateChange
     (summary (memoized (\<lambda>v d. []) (\<lambda>v. []) [parseRow (exampleRow ''1'' ''00:30:00'' ''10'')]))
     = Some NaN
   \<and> map_option newListenerShareChange
     (summary (memoized (\<lambda>v d. []) (\<lambda>v. []) [parseRow (exampleRow ''1'' ''00:30:00'' ''10'')]))
     = Some NaN"
  using single_episode_summary[of "[parseRow (exampleRow ''1'' ''00:30:00'' ''10'')]"
      "\<lambda>v d. []" "\<lambda>v. []"]
  by auto

section \<open>An empty series\<close>

text \<open>
  C4 (as the code has it). After an empty dataset has loaded, the hook reports no error:
  nothing fails.
\<close>

theorem empty_dataset_no_error:
  "error (usePodcastData (\<lambda>v d. []) (\<lambda>v. [])
            (settle (Resolved []) (initialState :: string hookState))) = None"
  by (simp add: usePodcastData_def initialState_def sortRows_def memoized_def)

text \<open>
  C4, amended. When the series is empty the summary is not computed and nothing is
  raised: the hook returns no episodes, \<open>summary = null\<close>, no insights, and the loading
  flag and the error of its state unchanged (after an empty dataset has loaded: not
  loading, no error).
\<close>

theorem empty_series_output:
  assumes "st_raw st = []"
  shows "usePodcastData toFixed toLocaleString st =
           \<lparr> episodes = [], summary = None, insights = [],
             loading = st_loading st, error = st_error st \<rparr>"
  using assms by (simp add: usePodcastData_def memoized_def)

theorem empty_series_output_witness:
  "usePodcastData (\<lambda>v d. []) (\<lambda>v. []) (settle (Resolved []) (initialState :: string hookState))
   = \<lparr> episodes = [], summary = None, insights = [], loading = False, error = None \<rparr>"
  using empty_series_output[of "settle (Resolved []) (initialState :: string hookState)"
      "\<lambda>v d. []" "\<lambda>v. []"]
  by (simp add: initialState_def sortRows_def)

section \<open>Rolling means\<close>

lemma take_drop_upt:
  assumes "s + n \<le> length xs"
  shows "take n (drop s xs) = map ((!) xs) [s ..< s + n]"
  using assms by (intro nth_equalityI) simp_all

text \<open>The slice that \<open>averageInWindow\<close> takes for a window of 7 is the trailing window.\<close>

lemma window_slice:
  assumes "i < length xs"
  shows "slice xs (max 0 (int i - (7 - 1))) (int i + 1) = map ((!) xs) [i - 6 ..< Suc i]"
proof -
  define start where "start = max 0 (int i - (7 - 1))"
  have s0: "0 \<le> start" "start \<le> int i" "nat start = i - 6"
    by (auto simp add: start_def)
  have n: "nat (int i + 1 - start) = Suc i - (i - 6)"
    using s0 by linarith
  have "slice xs start (int i + 1) = take (nat (int i + 1 - start)) (drop (nat start) xs)"
    using assms s0(1,2) by (simp add: slice_def Let_def)
  also have "\<dots> = take (Suc i - (i - 6)) (drop (i - 6) xs)"
    by (simp only: n s0(3))
  also have "\<dots> = map ((!) xs) [i - 6 ..< (i - 6) + (Suc i - (i - 6))]"
    using assms by (intro take_drop_upt) simp
  finally show ?thesis by (simp add: start_def)
qed

lemma averageInWindow_7:
  assumes "i < length xs"
  shows "averageInWindow xs (int i) f 7 =
           js_div (foldl (\<lambda>sum j. js_add sum (f (xs ! j))) (Fin 0) [i - 6 ..< Suc i])
                  (Fin (real (Suc i - (i - 6))))"
proof -
  have "averageInWindow xs (int i) f 7 =
          js_div (foldl (\<lambda>sum item. js_add sum (f item)) (Fin 0)
                        (map ((!) xs) [i - 6 ..< Suc i]))
                 (lengthOf (map ((!) xs) [i - 6 ..< Suc i]))"
    unfolding averageInWindow_def Let_def window_slice[OF assms] ..
  then show ?thesis
    by (simp only: foldl_map lengthOf_def length_map length_upt)
qed

lemma rolling_general:
  "i < length raw \<Longrightarrow>
      downloadsRolling (episodesOf raw ! i)
        = js_div (foldl (\<lambda>sum j. js_add sum (downloads (raw ! j))) (Fin 0) [i - 6 ..< Suc i])
                 (Fin (real (Suc i - (i - 6))))
      \<and> completionRolling (episodesOf raw ! i)
        = js_div (foldl (\<lambda>sum j. js_add sum (completionRate (raw ! j))) (Fin 0)
                        [i - 6 ..< Suc i])
                 (Fin (real (Suc i - (i - 6))))"
  by (simp only: episodesOf_nth deriveEpisode_def averageInWindow_7 episodeRecord.simps
      simp_thms)

lemma rolling_concrete:
  assumes h: "map downloads raw = map Fin [10, 20, 30, 40, 50, 60, 70, 80, 90, 100]"
  shows "downloadsRolling (episodesOf raw ! 6) = Fin 40
        \<and> downloadsRolling (episodesOf raw ! 0) = Fin 10"
proof -
  have "length raw = length (map downloads raw)" by simp
  also have "\<dots> = 10" by (simp only: h) simp
  finally have l: "length raw = 10" .
  have d: "downloads (raw ! j) = map Fin [10, 20, 30, 40, 50, 60, 70, 80, 90, 100] ! j"
    if "j < 10" for j
  proof -
    have "downloads (raw ! j) = map downloads raw ! j" using that l by simp
    then show ?thesis by (simp only: h)
  qed
  have ds: "downloads (raw ! 0) = Fin 10" "downloads (raw ! Suc 0) = Fin 20"
    "downloads (raw ! 2) = Fin 30" "downloads (raw ! 3) = Fin 40"
    "downloads (raw ! 4) = Fin 50" "downloads (raw ! 5) = Fin 60"
    "downloads (raw ! 6) = Fin 70"
    using d[of 0] d[of 1] d[of 2] d[of 3] d[of 4] d[of 5] d[of 6] by simp_all
  have u: "[0 ..< 7] = [0, Suc 0, 2, 3, 4, 5, 6::nat]"
    by (simp add: upt_rec)
  have "6 < length raw" "0 < length raw" using l by simp_all
  from rolling_general[OF this(1)] rolling_general[OF this(2)]
  show ?thesis by (simp add: u ds)
qed

text \<open>
  C5. For every series \<open>raw\<close> and every index \<open>i\<close> of it, the rolling downloads and the
  rolling completion rate of episode \<open>i\<close> are the sum of the values at the indices
  \<open>max(0, i - 6) .. i\<close> divided by the number of those indices (the window shrinks at the
  start of the series). When the downloads are \<open>10, 20, ..., 100\<close>, the rolling downloads
  are 40 at index 6 and 10 at index 0.
\<close>

theorem rolling_window:
  "(i < length raw \<longrightarrow>
      downloadsRolling (episodesOf raw ! i)
        = js_div (foldl (\<lambda>sum j. js_add sum (downloads (raw ! j))) (Fin 0) [i - 6 ..< Suc i])
                 (Fin (real (Suc i - (i - 6))))
      \<and> completionRolling (episodesOf raw ! i)
        = js_div (foldl (\<lambda>sum j. js_add sum (completionRate (raw ! j))) (Fin 0)
                        [i - 6 ..< Suc i])
                 (Fin (real (Suc i - (i - 6)))))
   \<and> (map downloads raw = map Fin [10, 20, 30, 40, 50, 60, 70, 80, 90, 100] \<longrightarrow>
        downloadsRolling (episodesOf raw ! 6) = Fin 40
        \<and> downloadsRolling (episodesOf raw ! 0) = Fin 10)"
  using rolling_general[of i raw] rolling_concrete[of raw] by blast

theorem rolling_window_witness:
  "6 < length (map parseRow tenRows)
   \<and> map downloads (map parseRow tenRows) = map Fin [10, 20, 30, 40, 50, 60, 70, 80, 90, 100]
   \<and> downloadsRolling (episodesOf (map parseRow tenRows) ! 6) = Fin 40
   \<and> downloadsRolling (episodesOf (map parseRow tenRows) ! 0) = Fin 10"
proof -
  have n: "Number ''10'' = Fin 10" "Number ''20'' = Fin 20" "Number ''30'' = Fin 30"
    "Number ''40'' = Fin 40" "Number ''50'' = Fin 50" "Number ''60'' = Fin 60"
    "Number ''70'' = Fin 70" "Number ''80'' = Fin 80" "Number ''90'' = Fin 90"
    "Number ''100'' = Fin 100"
    by (simp_all add: Number_defs)
  have d: "downloads (parseRow (exampleRow e t dl)) = Number dl" for e t dl
    by (simp add: parseRow_def exampleRow_def Let_def)
  have h: "map downloads (map parseRow tenRows)
           = map Fin [10, 20, 30, 40, 50, 60, 70, 80, 90, 100]"
    by (simp add: tenRows_def d n)
  have l: "6 < length (map parseRow tenRows)"
    by (simp add: tenRows_def)
  from rolling_window[of 6 "map parseRow tenRows"] h l show ?thesis by blast
qed

section \<open>The sign of a correlation in the insight texts\<close>

text \<open>
  C8. The insights of a series that is not empty are those of its summary. In the
  insights of every summary, the texts under \<open>sharesToSubs\<close> and \<open>duration\<close>
  are built from the two correlation coefficients of the summary, and each begins with
  its positive phrasing exactly when its coefficient is \<open>>= 0\<close>, and with its caution
  phrasing exactly when the coefficient is negative or NaN. A coefficient of exactly 0
  gives the positive phrasing.
\<close>

theorem insight_phrasing:
  "insights (memoized toFixed toLocaleString raw)
     = (if raw = [] then []
        else insightsOf toFixed toLocaleString
               (summaryOf (episodesOf raw) (totalSubscribersOf raw)))
   \<and> map_of (insightsOf toFixed toLocaleString s) ''sharesToSubs''
     = Some (sharesToSubs toFixed (sharesSubscribersCorrelation s))
   \<and> map_of (insightsOf toFixed toLocaleString s) ''duration''
     = Some (duration toFixed (durationCompletionCorrelation s))
   \<and> (prefix ''Social sharing strongly correlates with subscriber gains''
              (sharesToSubs toFixed r) \<longleftrightarrow> js_ge r (Fin 0))
   \<and> (prefix ''Higher social sharing currently coincides with fewer subscribers''
              (sharesToSubs toFixed r) \<longleftrightarrow> (js_lt r (Fin 0) \<or> r = NaN))
   \<and> (prefix ''Longer episodes trend toward stronger completion rates''
              (duration toFixed r) \<longleftrightarrow> js_ge r (Fin 0))
   \<and> (prefix ''Longer episodes trend toward lower completion''
              (duration toFixed r) \<longleftrightarrow> (js_lt r (Fin 0) \<or> r = NaN))
   \<and> prefix ''Social sharing strongly correlates with subscriber gains''
              (sharesToSubs toFixed (Fin 0))
   \<and> prefix ''Longer episodes trend toward stronger completion rates''
              (duration toFixed (Fin 0))"
proof (cases r)
  case (Fin a)
  then show ?thesis
    by (auto simp add: memoized_def Let_def insightsOf_def sharesToSubs_def duration_def)
qed (simp_all add: memoized_def Let_def insightsOf_def sharesToSubs_def duration_def
      js_ge_def js_eq_def)

section \<open>Sums of squares\<close>



section \<open>The folds of \<open>correlation\<close> as sums\<close>









section \<open>Symmetry, bounds and the extreme values of the correlation\<close>









end
